theory Spec2Isabelle
  imports Main "HOL-Library.Word"
begin

section \<open>Data model of \<open>src/main/services/assistantService/index.ts\<close>\<close>

text \<open>
  The service is a class with four fields (\<open>config\<close>, \<open>assistantApiDelegate\<close>,
  \<open>conversation\<close>, \<open>handlers\<close>). Its methods and the listeners it registers mutate
  those fields, call the host's handlers, talk to the Google Assistant library and
  to \<open>MainIpcBroker\<close>. The embedding passes the state explicitly and returns, for
  every piece of code, the exception that left it (if any), the new state and the
  list of externally visible effects in the order in which they happened.
\<close>

type_synonym Buffer = "8 word list"

text \<open>A JavaScript exception value: \<open>Error(message)\<close>.\<close>

datatype exn = Error string

text \<open>Object identities of the library's \<open>GoogleAssistant\<close> instance and of the
  conversation objects it hands out with its \<open>started\<close> event.\<close>

type_synonym GoogleAssistantApiDelegate = nat
type_synonym AssistantConversation = nat

text \<open>\<open>global.appConfig\<close>, as far as the service reads it. The two path fields carry
  the prefix \<open>app_\<close> because \<open>config.auth\<close> has fields of the same names.\<close>

record appConfig =
  app_keyFilePath :: string
  app_savedTokensPath :: string
  language :: string
  forceNewConversation :: bool
  enableMicOnImmediateResponse :: bool

text \<open>\<open>AssistantServiceConfig\<close> (lines 34--56). \<open>tokenInput\<close> holds a reference to the
  static method \<open>AssistantService.tokenInputHandler\<close>. The field \<open>config.conversation\<close>
  is called \<open>conversation_cfg\<close>; the name \<open>conversation\<close> is kept for the field of the
  service.\<close>

datatype tokenInputRef = TokenInputHandlerRef

record AuthConfig =
  keyFilePath :: string
  savedTokensPath :: string
  tokenInput :: tokenInputRef

record AudioConfig =
  encodingIn :: string
  sampleRateIn :: nat
  encodingOut :: string
  sampleRateOut :: nat

record ScreenConfig =
  isOn :: bool

record ConversationConfig =
  audio :: AudioConfig
  lang :: string
  deviceModelId :: string
  deviceId :: string
  textQuery :: "string option"
  isNew :: bool
  screen :: ScreenConfig

record AssistantServiceConfig =
  auth :: AuthConfig
  conversation_cfg :: ConversationConfig

text \<open>\<open>AssistantServiceEventHandlers\<close>: four host callbacks returning nothing. A
  JavaScript function can throw, so each is a function to \<open>exn option\<close>: \<open>None\<close> when
  the call returns, \<open>Some e\<close> when it throws \<open>e\<close>.\<close>

record AssistantServiceEventHandlers =
  onQuery :: "string \<Rightarrow> exn option"
  onScreenData :: "string \<Rightarrow> exn option"
  onAudioData :: "Buffer \<Rightarrow> exn option"
  onConversationEnded :: "unit \<Rightarrow> exn option"

record AssistantService =
  config :: AssistantServiceConfig
  assistantApiDelegate :: "GoogleAssistantApiDelegate option"
  conversation :: "AssistantConversation option"
  handlers :: AssistantServiceEventHandlers

text \<open>Payloads of the conversation's events. The field \<open>done\<close> of the transcription
  object is called \<open>done_flag\<close> (\<open>done\<close> is a keyword).\<close>

record TranscriptionObject =
  transcription :: string
  done_flag :: bool

record 'd ScreenData =
  format :: string
  data :: 'd

text \<open>Messages to the renderer, one constructor per channel name
  (\<open>assistant:stopAudioResponsePlayback\<close>, ...) with the payload sent on it.\<close>

datatype notification =
    Assistant_stopAudioResponsePlayback
  | Assistant_transcription TranscriptionObject
  | Assistant_screenData "string ScreenData"
  | Assistant_endOfUtterance
  | Assistant_conversationEnded
  | Assistant_startMic
  | Assistant_showOauthTokenPrompt string

text \<open>Messages from the renderer, one constructor per channel the service listens on.\<close>

datatype command =
    Assistant_invoke "string option"
  | Assistant_micAudioData Buffer
  | Assistant_endConversation
  | Assistant_oauthCode string

text \<open>The closures passed to \<open>MainIpcBroker.onRendererEmit\<close>: lines 81, 89, 95 and
  185. The last one closes over the validation callback of its prompt, which is
  an object of the library and is named by a number.\<close>

datatype listener =
    InvokeListener
  | MicAudioDataListener
  | EndConversationListener
  | OauthCodeListener nat

text \<open>The closures passed to \<open>on\<close> of the library's object (lines 74--76) and of a
  conversation object (lines 108--151).\<close>

datatype delegate_listener =
    ReadyListener
  | StartedListener
  | DelegateErrorListener

datatype conversation_listener =
    AudioDataListener
  | TranscriptionListener
  | ScreenDataListener
  | EndOfUtteranceListener
  | EndedListener
  | ErrorListener

datatype handler_call =
    OnQuery string
  | OnScreenData string
  | OnAudioData Buffer
  | OnConversationEnded

datatype log_arg = LogStr string | LogExn exn

text \<open>What the service does to the outside: a message to the renderer, a call of a
  host handler, a line on the console, the \<open>start\<close> command on the library's
  object (with the conversation configuration as it is at the call), \<open>write\<close> or
  \<open>end\<close> on a conversation object, a call of an OAuth validation callback. The
  library's calls and the broker's are taken to return; the host's handlers may
  throw. The registration of a listener is a change of the state.\<close>

datatype effect =
    SendIpcMessageToRenderer notification
  | HandlerCall handler_call
  | ConsoleLog "log_arg list"
  | ConsoleError "log_arg list"
  | DelegateStart GoogleAssistantApiDelegate ConversationConfig
  | ConversationWrite AssistantConversation Buffer
  | ConversationEnd AssistantConversation
  | OauthValidationCallback nat string

text \<open>The state: the one service object; the listeners subscribed at the broker; the
  listeners registered on the library's object that the service holds; the
  listeners registered on conversation objects, each with its object. All in the
  order of their registration.\<close>

record world =
  service :: AssistantService
  rendererListeners :: "listener list"
  delegateListeners :: "delegate_listener list"
  conversationListeners :: "(AssistantConversation \<times> conversation_listener) list"

section \<open>Statements\<close>

type_synonym stmt = "world \<Rightarrow> exn option \<times> world \<times> effect list"

definition skip :: stmt where
  "skip w = (None, w, [])"

definition emit :: "effect \<Rightarrow> stmt" where
  "emit e w = (None, w, [e])"

definition throw :: "exn \<Rightarrow> stmt" where
  "throw e w = (Some e, w, [])"

definition modify :: "(AssistantService \<Rightarrow> AssistantService) \<Rightarrow> stmt" where
  "modify f w = (None, w\<lparr>service := f (service w)\<rparr>, [])"

text \<open>A sequence of statements: an exception ends it, and the effects so far stay.\<close>

fun block :: "stmt list \<Rightarrow> stmt" where
  "block [] w = (None, w, [])"
| "block (c # cs) w =
     (case c w of
        (Some e, w', t) \<Rightarrow> (Some e, w', t)
      | (None, w', t) \<Rightarrow> (case block cs w' of (r, w'', t') \<Rightarrow> (r, w'', t @ t')))"

definition sendIpcMessageToRenderer :: "notification \<Rightarrow> stmt" where
  "sendIpcMessageToRenderer n = emit (SendIpcMessageToRenderer n)"

text \<open>Modelled from the spec: \<open>MainIpcBroker\<close> (\<open>main/ipc/main/mainIpcBroker\<close>) is not
  part of the sources at hand. \<open>onRendererEmit\<close> adds a listener for a channel of
  inbound commands. The subscription lasts: the service registers its listeners
  for invoke, feed-audio and end-conversation "once during initialize" and they
  serve every later command (a turn is started "repeatedly, once per turn").\<close>

definition onRendererEmit :: "listener \<Rightarrow> stmt" where
  "onRendererEmit l w = (None, w\<lparr>rendererListeners := rendererListeners w @ [l]\<rparr>, [])"

text \<open>\<open>on\<close> of the library's object held by the service and of a conversation object:
  the listener is added after those already registered.\<close>

definition delegateOn :: "delegate_listener \<Rightarrow> stmt" where
  "delegateOn l w = (None, w\<lparr>delegateListeners := delegateListeners w @ [l]\<rparr>, [])"

definition conversationOn :: "AssistantConversation \<Rightarrow> conversation_listener \<Rightarrow> stmt" where
  "conversationOn c l w =
     (None, w\<lparr>conversationListeners := conversationListeners w @ [(c, l)]\<rparr>, [])"

text \<open>\<open>this.assistantApiDelegate = new GoogleAssistant(...)\<close>: the service holds a new
  object, on which nothing is registered yet.\<close>

definition assign_delegate :: "GoogleAssistantApiDelegate \<Rightarrow> stmt" where
  "assign_delegate d w =
     (None,
      w\<lparr>service := (service w)\<lparr>assistantApiDelegate := Some d\<rparr>, delegateListeners := []\<rparr>,
      [])"

text \<open>Calling a host handler: the call is an effect, and what the handler does
  (return or throw) is the outcome of the statement.\<close>

definition call_handler ::
  "(AssistantServiceEventHandlers \<Rightarrow> exn option) \<Rightarrow> handler_call \<Rightarrow> stmt" where
  "call_handler f c w = (f (handlers (service w)), w, [HandlerCall c])"

text \<open>\<open>Buffer.from(data)\<close>: a buffer with the same bytes.\<close>

definition Buffer_from :: "Buffer \<Rightarrow> Buffer" where
  "Buffer_from d = d"

text \<open>JavaScript's truthiness of a \<open>string | undefined\<close>, and \<open>query ?? ''\<close>.\<close>

fun truthy :: "string option \<Rightarrow> bool" where
  "truthy None = False"
| "truthy (Some s) = (s \<noteq> [])"

fun or_empty :: "string option \<Rightarrow> string" where
  "or_empty None = []"
| "or_empty (Some s) = s"

section \<open>The service\<close>

subsection \<open>Constructor (lines 33--64)\<close>

definition AssistantService_new :: "appConfig \<Rightarrow> AssistantService" where
  "AssistantService_new app =
     \<lparr>config =
        \<lparr>auth =
           \<lparr>keyFilePath = app_keyFilePath app,
            savedTokensPath = app_savedTokensPath app,
            tokenInput = TokenInputHandlerRef\<rparr>,
         conversation_cfg =
           \<lparr>audio =
              \<lparr>encodingIn = ''LINEAR16'', sampleRateIn = 16000,
               encodingOut = ''MP3'', sampleRateOut = 24000\<rparr>,
            lang = language app,
            deviceModelId = [],
            deviceId = [],
            textQuery = None,
            isNew = forceNewConversation app,
            screen = \<lparr>isOn = True\<rparr>\<rparr>\<rparr>,
      assistantApiDelegate = None,
      conversation = None,
      handlers =
        \<lparr>onQuery = (\<lambda>_. None), onScreenData = (\<lambda>_. None),
         onAudioData = (\<lambda>_. None), onConversationEnded = (\<lambda>_. None)\<rparr>\<rparr>"

text \<open>The state of the process once the service object exists: nothing is subscribed.\<close>

definition new_world :: "appConfig \<Rightarrow> world" where
  "new_world app =
     \<lparr>service = AssistantService_new app, rendererListeners = [],
      delegateListeners = [], conversationListeners = []\<rparr>"

subsection \<open>\<open>invokeAssistant\<close> (lines 161--177)\<close>

definition uninitialized :: exn where
  \<open>uninitialized =
     Error ''Cannot trigger "start" event for assistant as the initialization failed''\<close>

definition set_textQuery :: "string option \<Rightarrow> AssistantService \<Rightarrow> AssistantService" where
  "set_textQuery q s =
     s\<lparr>config := (config s)\<lparr>conversation_cfg := (conversation_cfg (config s))\<lparr>textQuery := q\<rparr>\<rparr>\<rparr>"

definition invokeAssistant :: "string option \<Rightarrow> stmt" where
  "invokeAssistant q w =
     (case assistantApiDelegate (service w) of
        None \<Rightarrow> throw uninitialized w
      | Some d \<Rightarrow>
          block
            [if truthy q then modify (set_textQuery q) else modify (set_textQuery None),
             (\<lambda>w. emit (DelegateStart d (conversation_cfg (config (service w)))) w)] w)"

subsection \<open>The listeners registered by \<open>initialize\<close> (lines 81--98)\<close>

definition invoke_listener :: "string option \<Rightarrow> stmt" where
  "invoke_listener query =
     block
       [sendIpcMessageToRenderer Assistant_stopAudioResponsePlayback,
        invokeAssistant query,
        call_handler (\<lambda>h. onQuery h (or_empty query)) (OnQuery (or_empty query))]"

definition micAudioData_listener :: "Buffer \<Rightarrow> stmt" where
  "micAudioData_listener audioBuffer w =
     (let buffer = Buffer_from audioBuffer in
      case conversation (service w) of
        None \<Rightarrow> skip w
      | Some c \<Rightarrow> emit (ConversationWrite c buffer) w)"

definition endConversation_listener :: stmt where
  "endConversation_listener =
     block
       [(\<lambda>w. case conversation (service w) of
                None \<Rightarrow> skip w
              | Some c \<Rightarrow> emit (ConversationEnd c) w),
        modify (\<lambda>s. s\<lparr>conversation := None\<rparr>)]"

subsection \<open>\<open>initialize\<close> (lines 69--103)\<close>

text \<open>\<open>GoogleAssistant\<close> is the library's constructor: it returns the new object or
  throws. Whatever is thrown inside the \<open>try\<close> is caught and logged; the statements
  after the throwing one are not run.\<close>

definition initialize ::
  "(AuthConfig \<Rightarrow> exn + GoogleAssistantApiDelegate) \<Rightarrow> AssistantServiceEventHandlers \<Rightarrow> stmt" where
  "initialize GoogleAssistant hs w =
     (case GoogleAssistant (auth (config (service w))) of
        Inl error \<Rightarrow>
          emit (ConsoleError [LogStr ''Assistant initialization failed.'', LogExn error]) w
      | Inr d \<Rightarrow>
          block
            [assign_delegate d,
             modify (\<lambda>s. s\<lparr>handlers := hs\<rparr>),
             delegateOn ReadyListener,
             delegateOn StartedListener,
             delegateOn DelegateErrorListener,
             emit (ConsoleLog [LogStr ''Assistant Service initialized successfully'']),
             onRendererEmit InvokeListener,
             onRendererEmit MicAudioDataListener,
             onRendererEmit EndConversationListener] w)"

subsection \<open>\<open>handleConversation\<close> and the conversation's listeners (lines 105--152)\<close>

definition audio_data_listener :: "Buffer \<Rightarrow> stmt" where
  "audio_data_listener d =
     (let audioBuffer = Buffer_from d in
      call_handler (\<lambda>h. onAudioData h audioBuffer) (OnAudioData audioBuffer))"

definition transcription_listener :: "TranscriptionObject \<Rightarrow> stmt" where
  "transcription_listener transcriptionObject =
     block
       [sendIpcMessageToRenderer (Assistant_transcription transcriptionObject),
        if done_flag transcriptionObject
        then call_handler (\<lambda>h. onQuery h (transcription transcriptionObject))
               (OnQuery (transcription transcriptionObject))
        else skip]"

text \<open>\<open>toString\<close> is the decoding of the buffer's bytes, \<open>screenData.data.toString()\<close>.\<close>

definition screen_data_listener :: "(Buffer \<Rightarrow> string) \<Rightarrow> Buffer ScreenData \<Rightarrow> stmt" where
  "screen_data_listener toString screenData =
     block
       [sendIpcMessageToRenderer
          (Assistant_screenData
             \<lparr>format = format screenData, data = toString (data screenData)\<rparr>),
        call_handler (\<lambda>h. onScreenData h (toString (data screenData)))
          (OnScreenData (toString (data screenData)))]"

definition end_of_utterance_listener :: stmt where
  "end_of_utterance_listener = sendIpcMessageToRenderer Assistant_endOfUtterance"

definition ended_listener :: "appConfig \<Rightarrow> exn option \<Rightarrow> bool \<Rightarrow> stmt" where
  "ended_listener app error shouldContinueConversation =
     block
       [case error of None \<Rightarrow> skip | Some e \<Rightarrow> emit (ConsoleError [LogExn e]),
        sendIpcMessageToRenderer Assistant_conversationEnded,
        call_handler (\<lambda>h. onConversationEnded h ()) OnConversationEnded,
        if shouldContinueConversation \<and> enableMicOnImmediateResponse app
        then sendIpcMessageToRenderer Assistant_startMic
        else skip]"

definition error_listener :: "exn \<Rightarrow> stmt" where
  "error_listener error = emit (ConsoleError [LogExn error])"

definition handleConversation :: "AssistantConversation \<Rightarrow> stmt" where
  "handleConversation c =
     block
       [modify (\<lambda>s. s\<lparr>conversation := Some c\<rparr>),
        conversationOn c AudioDataListener,
        conversationOn c TranscriptionListener,
        conversationOn c ScreenDataListener,
        conversationOn c EndOfUtteranceListener,
        conversationOn c EndedListener,
        conversationOn c ErrorListener]"

subsection \<open>\<open>tokenInputHandler\<close> (lines 179--189)\<close>

definition oauthCode_listener :: "nat \<Rightarrow> string \<Rightarrow> stmt" where
  "oauthCode_listener oauthValidationCallback oauthCode =
     emit (OauthValidationCallback oauthValidationCallback oauthCode)"

definition tokenInputHandler :: "nat \<Rightarrow> string \<Rightarrow> stmt" where
  "tokenInputHandler oauthValidationCallback authUrl =
     block
       [sendIpcMessageToRenderer (Assistant_showOauthTokenPrompt authUrl),
        onRendererEmit (OauthCodeListener oauthValidationCallback)]"

section \<open>Events\<close>

text \<open>Modelled from the spec: the dispatch of \<open>MainIpcBroker\<close> (not part of the sources
  at hand). A command of the renderer runs the listeners subscribed to its
  channel, in the order of their subscription; a listener of another channel
  does nothing, and an exception of a listener ends the dispatch.\<close>

fun dispatch :: "listener \<Rightarrow> command \<Rightarrow> stmt" where
  "dispatch InvokeListener (Assistant_invoke query) = invoke_listener query"
| "dispatch MicAudioDataListener (Assistant_micAudioData audioBuffer) =
     micAudioData_listener audioBuffer"
| "dispatch EndConversationListener Assistant_endConversation = endConversation_listener"
| "dispatch (OauthCodeListener cb) (Assistant_oauthCode oauthCode) =
     oauthCode_listener cb oauthCode"
| "dispatch _ _ = skip"

definition rendererEmit :: "command \<Rightarrow> stmt" where
  "rendererEmit cmd w = block (map (\<lambda>l. dispatch l cmd) (rendererListeners w)) w"

text \<open>The events of a conversation object. The object is the library's, an event
  emitter: an event runs the listeners registered on that object for that kind of
  event, in the order of their registration and once per registration; a
  listener for another kind of event does nothing, an object on which nothing is
  registered runs nothing, and an exception of a listener ends the dispatch.\<close>

datatype conversation_event =
    AudioData Buffer
  | Transcription TranscriptionObject
  | ScreenDataEvent "Buffer ScreenData"
  | EndOfUtterance
  | Ended "exn option" bool
  | ConversationError exn

fun conversation_dispatch ::
  "appConfig \<Rightarrow> (Buffer \<Rightarrow> string) \<Rightarrow> conversation_listener \<Rightarrow> conversation_event \<Rightarrow> stmt" where
  "conversation_dispatch app toString AudioDataListener (AudioData d) = audio_data_listener d"
| "conversation_dispatch app toString TranscriptionListener (Transcription t) =
     transcription_listener t"
| "conversation_dispatch app toString ScreenDataListener (ScreenDataEvent sd) =
     screen_data_listener toString sd"
| "conversation_dispatch app toString EndOfUtteranceListener EndOfUtterance =
     end_of_utterance_listener"
| "conversation_dispatch app toString EndedListener (Ended error shouldContinue) =
     ended_listener app error shouldContinue"
| "conversation_dispatch app toString ErrorListener (ConversationError error) =
     error_listener error"
| "conversation_dispatch app toString _ _ = skip"

definition listeners_on :: "AssistantConversation \<Rightarrow> world \<Rightarrow> conversation_listener list" where
  "listeners_on c w = map snd (filter (\<lambda>x. fst x = c) (conversationListeners w))"

definition conversationEmit ::
  "appConfig \<Rightarrow> (Buffer \<Rightarrow> string) \<Rightarrow> AssistantConversation \<Rightarrow> conversation_event \<Rightarrow> stmt" where
  "conversationEmit app toString c ev w =
     block (map (\<lambda>l. conversation_dispatch app toString l ev) (listeners_on c w)) w"

text \<open>The events of the library's object that the service holds. The listeners for
  \<open>ready\<close> and \<open>error\<close> are empty functions; the one for \<open>started\<close> is
  \<open>handleConversation\<close>, bound to the service.\<close>

datatype delegate_event =
    ReadyEvent
  | StartedEvent AssistantConversation
  | DelegateErrorEvent exn

fun delegate_dispatch :: "delegate_listener \<Rightarrow> delegate_event \<Rightarrow> stmt" where
  "delegate_dispatch ReadyListener ReadyEvent = skip"
| "delegate_dispatch StartedListener (StartedEvent c) = handleConversation c"
| "delegate_dispatch DelegateErrorListener (DelegateErrorEvent error) = skip"
| "delegate_dispatch _ _ = skip"

definition delegateEmit :: "delegate_event \<Rightarrow> stmt" where
  "delegateEmit ev w = block (map (\<lambda>l. delegate_dispatch l ev) (delegateListeners w)) w"

text \<open>Everything that can happen to the service: a call of one of its public
  methods, an event of the library's object it holds (\<open>Started c\<close> is its \<open>started\<close>
  event with the conversation object \<open>c\<close>), an event of a conversation object, a
  command of the renderer.\<close>

datatype action =
    Initialize "AuthConfig \<Rightarrow> exn + GoogleAssistantApiDelegate" AssistantServiceEventHandlers
  | InvokeAssistant "string option"
  | HandleConversation AssistantConversation
  | TokenInput nat string
  | AdapterReady
  | Started AssistantConversation
  | AdapterError exn
  | ConversationEvent AssistantConversation conversation_event
  | RendererCommand command

fun perform :: "appConfig \<Rightarrow> (Buffer \<Rightarrow> string) \<Rightarrow> action \<Rightarrow> stmt" where
  "perform app toString (Initialize GoogleAssistant hs) = initialize GoogleAssistant hs"
| "perform app toString (InvokeAssistant q) = invokeAssistant q"
| "perform app toString (HandleConversation c) = handleConversation c"
| "perform app toString (TokenInput cb authUrl) = tokenInputHandler cb authUrl"
| "perform app toString AdapterReady = delegateEmit ReadyEvent"
| "perform app toString (Started c) = delegateEmit (StartedEvent c)"
| "perform app toString (AdapterError error) = delegateEmit (DelegateErrorEvent error)"
| "perform app toString (ConversationEvent c ev) = conversationEmit app toString c ev"
| "perform app toString (RendererCommand cmd) = rendererEmit cmd"

text \<open>A history: each action runs in the state the previous one left, whether it
  returned or threw. The result is the final state and, per action, the exception
  that left it and its effects.\<close>

fun run ::
  "appConfig \<Rightarrow> (Buffer \<Rightarrow> string) \<Rightarrow> action list \<Rightarrow> world
     \<Rightarrow> world \<times> (exn option \<times> effect list) list" where
  "run app toString [] w = (w, [])"
| "run app toString (a # as) w =
     (case perform app toString a w of
        (r, w', t) \<Rightarrow>
          (case run app toString as w' of (w'', rs) \<Rightarrow> (w'', (r, t) # rs)))"

text \<open>The validation callbacks that a command \<open>assistant:oauthCode\<close> reaches: one per
  subscribed listener of \<open>tokenInputHandler\<close>, in the order of subscription.\<close>

fun subscribed_callbacks :: "listener list \<Rightarrow> nat list" where
  "subscribed_callbacks [] = []"
| "subscribed_callbacks (OauthCodeListener cb # ls) = cb # subscribed_callbacks ls"
| "subscribed_callbacks (_ # ls) = subscribed_callbacks ls"

text \<open>What the service's listeners depend on: whether the adapter exists, and whether
  the listener for \<open>assistant:invoke\<close> is subscribed.\<close>

definition obs :: "world \<Rightarrow> GoogleAssistantApiDelegate option \<times> bool" where
  "obs w = (assistantApiDelegate (service w), InvokeListener \<in> set (rendererListeners w))"

definition listening_inv :: "world \<Rightarrow> bool" where
  "listening_inv w =
     (InvokeListener \<in> set (rendererListeners w) \<longrightarrow> assistantApiDelegate (service w) \<noteq> None)"

text \<open>The listeners that one call of \<open>handleConversation\<close> registers on its
  conversation object, in the order of lines 108--151.\<close>

definition handleConversation_listeners :: "conversation_listener list" where
  "handleConversation_listeners =
     [AudioDataListener, TranscriptionListener, ScreenDataListener,
      EndOfUtteranceListener, EndedListener, ErrorListener]"

section \<open>Example configurations\<close>

definition app0 :: appConfig where
  "app0 =
     \<lparr>app_keyFilePath = ''key.json'', app_savedTokensPath = ''tokens.json'',
      language = ''en-US'', forceNewConversation = False,
      enableMicOnImmediateResponse = True\<rparr>"

definition quiet_handlers :: AssistantServiceEventHandlers where
  "quiet_handlers =
     \<lparr>onQuery = (\<lambda>_. None), onScreenData = (\<lambda>_. None),
      onAudioData = (\<lambda>_. None), onConversationEnded = (\<lambda>_. None)\<rparr>"

definition failing_handlers :: AssistantServiceEventHandlers where
  "failing_handlers =
     \<lparr>onQuery = (\<lambda>_. Some (Error ''handler failed'')),
      onScreenData = (\<lambda>_. Some (Error ''handler failed'')),
      onAudioData = (\<lambda>_. Some (Error ''handler failed'')),
      onConversationEnded = (\<lambda>_. Some (Error ''handler failed''))\<rparr>"

definition GoogleAssistant_ok :: "AuthConfig \<Rightarrow> exn + GoogleAssistantApiDelegate" where
  "GoogleAssistant_ok a = Inr 1"

definition GoogleAssistant_fails :: "AuthConfig \<Rightarrow> exn + GoogleAssistantApiDelegate" where
  "GoogleAssistant_fails a = Inl (Error ''key file not found'')"

definition latin1 :: "Buffer \<Rightarrow> string" where
  "latin1 b = map (\<lambda>x. char_of (unat x)) b"

text \<open>The service after a successful \<open>initialize\<close>; after that and the adapter's
  \<open>started\<close> event with conversation 7, with handlers that return and with
  handlers that throw; and after an \<open>initialize\<close> whose adapter construction threw.\<close>

definition initialized_world :: world where
  "initialized_world =
     fst (run app0 latin1 [Initialize GoogleAssistant_ok quiet_handlers] (new_world app0))"

definition started_world :: world where
  "started_world =
     fst (run app0 latin1
            [Initialize GoogleAssistant_ok quiet_handlers, Started 7] (new_world app0))"

definition failing_world :: world where
  "failing_world =
     fst (run app0 latin1
            [Initialize GoogleAssistant_ok failing_handlers, Started 7] (new_world app0))"

definition uninitialized_world :: world where
  "uninitialized_world =
     fst (run app0 latin1 [Initialize GoogleAssistant_fails quiet_handlers] (new_world app0))"

section \<open>Statements and listeners in closed form\<close>

lemmas stmt_defs = skip_def emit_def throw_def modify_def sendIpcMessageToRenderer_def
  onRendererEmit_def call_handler_def delegateOn_def conversationOn_def assign_delegate_def

lemma audio_data_listener_eq:
  "audio_data_listener d w =
     (onAudioData (handlers (service w)) d, w, [HandlerCall (OnAudioData d)])"
  by (simp add: audio_data_listener_def stmt_defs Buffer_from_def)

lemma transcription_listener_eq:
  "transcription_listener t w =
     (if done_flag t then onQuery (handlers (service w)) (transcription t) else None,
      w,
      SendIpcMessageToRenderer (Assistant_transcription t) #
        (if done_flag t then [HandlerCall (OnQuery (transcription t))] else []))"
  by (simp add: transcription_listener_def stmt_defs split: option.splits)

lemma screen_data_listener_eq:
  "screen_data_listener toString sd w =
     (onScreenData (handlers (service w)) (toString (data sd)),
      w,
      [SendIpcMessageToRenderer
         (Assistant_screenData \<lparr>format = format sd, data = toString (data sd)\<rparr>),
       HandlerCall (OnScreenData (toString (data sd)))])"
  by (simp add: screen_data_listener_def stmt_defs split: option.splits)

lemma ended_listener_eq:
  "ended_listener app error sc w =
     (onConversationEnded (handlers (service w)) (),
      w,
      (case error of None \<Rightarrow> [] | Some e \<Rightarrow> [ConsoleError [LogExn e]]) @
      [SendIpcMessageToRenderer Assistant_conversationEnded, HandlerCall OnConversationEnded] @
      (if onConversationEnded (handlers (service w)) () = None \<and> sc \<and>
          enableMicOnImmediateResponse app
       then [SendIpcMessageToRenderer Assistant_startMic] else []))"
  by (simp add: ended_listener_def stmt_defs split: option.splits)

lemma invokeAssistant_started:
  "assistantApiDelegate (service w) = Some d \<Longrightarrow>
   invokeAssistant q w =
     (None, w\<lparr>service := set_textQuery (if truthy q then q else None) (service w)\<rparr>,
      [DelegateStart d
         ((conversation_cfg (config (service w)))\<lparr>textQuery := (if truthy q then q else None)\<rparr>)])"
  by (simp add: invokeAssistant_def stmt_defs set_textQuery_def)

lemma invokeAssistant_throws:
  "assistantApiDelegate (service w) = None \<Longrightarrow>
   invokeAssistant q w = (Some uninitialized, w, [])"
  by (simp add: invokeAssistant_def stmt_defs)

lemma endConversation_listener_eq:
  "endConversation_listener w =
     (None, w\<lparr>service := (service w)\<lparr>conversation := None\<rparr>\<rparr>,
      case conversation (service w) of None \<Rightarrow> [] | Some c \<Rightarrow> [ConversationEnd c])"
  by (simp add: endConversation_listener_def stmt_defs split: option.splits)

lemma endConversation_listener_idle:
  "conversation (service w) = None \<Longrightarrow> endConversation_listener w = (None, w, [])"
  by (simp add: endConversation_listener_eq)

lemma tokenInputHandler_eq:
  "tokenInputHandler cb authUrl w =
     (None, w\<lparr>rendererListeners := rendererListeners w @ [OauthCodeListener cb]\<rparr>,
      [SendIpcMessageToRenderer (Assistant_showOauthTokenPrompt authUrl)])"
  by (simp add: tokenInputHandler_def stmt_defs)

lemma initialize_failed:
  "GoogleAssistant (auth (config (service w))) = Inl e \<Longrightarrow>
   initialize GoogleAssistant hs w =
     (None, w, [ConsoleError [LogStr ''Assistant initialization failed.'', LogExn e]])"
  by (simp add: initialize_def stmt_defs)

lemma initialize_succeeded:
  "GoogleAssistant (auth (config (service w))) = Inr d \<Longrightarrow>
   initialize GoogleAssistant hs w =
     (None,
      \<lparr>service = (service w)\<lparr>assistantApiDelegate := Some d, handlers := hs\<rparr>,
       rendererListeners =
         rendererListeners w @ [InvokeListener, MicAudioDataListener, EndConversationListener],
       delegateListeners = [ReadyListener, StartedListener, DelegateErrorListener],
       conversationListeners = conversationListeners w\<rparr>,
      [ConsoleLog [LogStr ''Assistant Service initialized successfully'']])"
  by (simp add: initialize_def stmt_defs)

lemma handleConversation_eq:
  "handleConversation c w =
     (None,
      w\<lparr>service := (service w)\<lparr>conversation := Some c\<rparr>,
        conversationListeners :=
          conversationListeners w @ map (\<lambda>l. (c, l)) handleConversation_listeners\<rparr>,
      [])"
  by (simp add: handleConversation_def handleConversation_listeners_def stmt_defs)

lemma handleConversation_registers:
  "listeners_on c' (fst (snd (handleConversation c w))) =
     listeners_on c' w @ (if c' = c then handleConversation_listeners else [])"
  by (simp add: handleConversation_eq listeners_on_def handleConversation_listeners_def)

section \<open>Dispatch of the adapter's and the conversation's events\<close>

lemma delegateEmit_started:
  "delegateListeners w = [ReadyListener, StartedListener, DelegateErrorListener] \<Longrightarrow>
   delegateEmit (StartedEvent c) w = handleConversation c w"
  by (simp add: delegateEmit_def handleConversation_eq skip_def)

lemma started_registers:
  "delegateListeners w = [ReadyListener, StartedListener, DelegateErrorListener] \<Longrightarrow>
   listeners_on c w = [] \<Longrightarrow>
   listeners_on c (fst (snd (delegateEmit (StartedEvent c) w))) = handleConversation_listeners"
  by (simp add: delegateEmit_started handleConversation_registers)

lemma conversationEmit_unregistered:
  "listeners_on c w = [] \<Longrightarrow> conversationEmit app toString c ev w = (None, w, [])"
  by (simp add: conversationEmit_def)

lemma conversationEmit_audio_data:
  "listeners_on c w = handleConversation_listeners \<Longrightarrow>
   conversationEmit app toString c (AudioData d) w = audio_data_listener d w"
  by (simp add: conversationEmit_def handleConversation_listeners_def audio_data_listener_eq
      skip_def split: option.splits)

lemma conversationEmit_transcription:
  "listeners_on c w = handleConversation_listeners \<Longrightarrow>
   conversationEmit app toString c (Transcription t) w = transcription_listener t w"
  by (simp add: conversationEmit_def handleConversation_listeners_def transcription_listener_eq
      skip_def split: option.splits)

lemma conversationEmit_screen_data:
  "listeners_on c w = handleConversation_listeners \<Longrightarrow>
   conversationEmit app toString c (ScreenDataEvent sd) w = screen_data_listener toString sd w"
  by (simp add: conversationEmit_def handleConversation_listeners_def screen_data_listener_eq
      skip_def split: option.splits)

lemma conversationEmit_ended:
  "listeners_on c w = handleConversation_listeners \<Longrightarrow>
   conversationEmit app toString c (Ended error sc) w = ended_listener app error sc w"
  by (simp add: conversationEmit_def handleConversation_listeners_def ended_listener_eq
      skip_def split: option.splits)

section \<open>Dispatch of the renderer's commands\<close>

lemma block_all_skip:
  "(\<And>c. c \<in> set cs \<Longrightarrow> c = skip) \<Longrightarrow> block cs w = (None, w, [])"
proof (induction cs arbitrary: w)
  case Nil
  then show ?case by simp
next
  case (Cons c cs)
  have c: "c = skip" using Cons.prems by simp
  have "block cs w = (None, w, [])" using Cons.IH Cons.prems by simp
  then show ?case using c by (simp add: skip_def)
qed

lemma dispatch_invoke_other:
  "l \<noteq> InvokeListener \<Longrightarrow> dispatch l (Assistant_invoke q) = skip"
  by (cases l) simp_all

lemma rendererEmit_invoke_unsubscribed:
  "InvokeListener \<notin> set (rendererListeners w) \<Longrightarrow>
   rendererEmit (Assistant_invoke q) w = (None, w, [])"
  unfolding rendererEmit_def
proof (rule block_all_skip)
  fix c
  assume a: "InvokeListener \<notin> set (rendererListeners w)"
    and "c \<in> set (map (\<lambda>l. dispatch l (Assistant_invoke q)) (rendererListeners w))"
  then obtain l where l: "l \<in> set (rendererListeners w)" "c = dispatch l (Assistant_invoke q)"
    by auto
  have "l \<noteq> InvokeListener" using a l(1) by blast
  then show "c = skip" unfolding l(2) by (rule dispatch_invoke_other)
qed

lemma dispatch_endConversation:
  "dispatch l Assistant_endConversation =
     (if l = EndConversationListener then endConversation_listener else skip)"
  by (cases l) simp_all

lemma block_endConversation:
  "block (map (\<lambda>l. dispatch l Assistant_endConversation) ls) w =
     (if EndConversationListener \<in> set ls then endConversation_listener w else (None, w, []))"
proof (induction ls arbitrary: w)
  case Nil
  then show ?case by simp
next
  case (Cons l ls)
  show ?case
  proof (cases "l = EndConversationListener")
    case True
    let ?w1 = "w\<lparr>service := (service w)\<lparr>conversation := None\<rparr>\<rparr>"
    have idle: "endConversation_listener ?w1 = (None, ?w1, [])"
      by (rule endConversation_listener_idle) simp
    have "block (map (\<lambda>l. dispatch l Assistant_endConversation) ls) ?w1 = (None, ?w1, [])"
      using Cons.IH[of ?w1] idle by simp
    then show ?thesis using True
      by (simp add: endConversation_listener_eq)
  next
    case False
    then show ?thesis using Cons.IH[of w]
      by (simp add: dispatch_endConversation skip_def)
  qed
qed

lemma block_oauthCode:
  "block (map (\<lambda>l. dispatch l (Assistant_oauthCode code)) ls) w =
     (None, w, map (\<lambda>cb. OauthValidationCallback cb code) (subscribed_callbacks ls))"
proof (induction ls arbitrary: w)
  case Nil
  then show ?case by simp
next
  case (Cons l ls)
  then show ?case
    by (cases l) (simp_all add: oauthCode_listener_def stmt_defs)
qed

section \<open>The listener for \<open>assistant:invoke\<close> exists only with an adapter\<close>

text \<open>Only \<open>initialize\<close> touches the adapter reference or subscribes the invoke
  listener; every other piece of code leaves both as they are.\<close>

lemma block_obs:
  "(\<And>c w. c \<in> set cs \<Longrightarrow> obs (fst (snd (c w))) = obs w) \<Longrightarrow>
   obs (fst (snd (block cs w))) = obs w"
proof (induction cs arbitrary: w)
  case Nil
  then show ?case by simp
next
  case (Cons c cs)
  obtain r w' t where cw: "c w = (r, w', t)" by (cases "c w")
  have o1: "obs w' = obs w" using Cons.prems[of c w] cw by simp
  show ?case
  proof (cases r)
    case None
    obtain r2 w2 t2 where b: "block cs w' = (r2, w2, t2)" by (cases "block cs w'")
    have "obs w2 = obs w'" using Cons.IH[of w'] Cons.prems b by simp
    then show ?thesis using cw None b o1 by simp
  next
    case (Some e)
    then show ?thesis using cw o1 by simp
  qed
qed

lemma emit_obs: "obs (fst (snd (emit e w))) = obs w"
  by (simp add: emit_def)

lemma skip_obs: "obs (fst (snd (skip w))) = obs w"
  by (simp add: skip_def)

lemma send_obs: "obs (fst (snd (sendIpcMessageToRenderer n w))) = obs w"
  by (simp add: sendIpcMessageToRenderer_def emit_def)

lemma call_handler_obs: "obs (fst (snd (call_handler f c w))) = obs w"
  by (simp add: call_handler_def)

lemma modify_obs:
  "(\<And>s. assistantApiDelegate (f s) = assistantApiDelegate s) \<Longrightarrow>
   obs (fst (snd (modify f w))) = obs w"
  by (simp add: modify_def obs_def)

lemma conversationOn_obs: "obs (fst (snd (conversationOn c l w))) = obs w"
  by (simp add: conversationOn_def obs_def)

lemmas prim_obs = emit_obs skip_obs send_obs call_handler_obs modify_obs conversationOn_obs

lemma invokeAssistant_obs: "obs (fst (snd (invokeAssistant q w))) = obs w"
  by (simp add: invokeAssistant_def stmt_defs set_textQuery_def obs_def split: option.splits)

lemma invoke_listener_obs: "obs (fst (snd (invoke_listener q w))) = obs w"
  unfolding invoke_listener_def
  by (rule block_obs) (auto simp: invokeAssistant_obs prim_obs)

lemma micAudioData_listener_obs: "obs (fst (snd (micAudioData_listener b w))) = obs w"
  by (simp add: micAudioData_listener_def stmt_defs obs_def split: option.splits)

lemma endConversation_listener_obs: "obs (fst (snd (endConversation_listener w))) = obs w"
  by (simp add: endConversation_listener_eq obs_def)

lemma dispatch_obs: "obs (fst (snd (dispatch l cmd w))) = obs w"
  by (cases l; cases cmd)
     (simp_all add: invoke_listener_obs micAudioData_listener_obs endConversation_listener_obs
        oauthCode_listener_def stmt_defs)

lemma rendererEmit_obs: "obs (fst (snd (rendererEmit cmd w))) = obs w"
  unfolding rendererEmit_def
  by (rule block_obs) (auto simp: dispatch_obs)

lemma tokenInputHandler_obs: "obs (fst (snd (tokenInputHandler cb u w))) = obs w"
  by (simp add: tokenInputHandler_eq obs_def)

lemma handleConversation_obs: "obs (fst (snd (handleConversation c w))) = obs w"
  by (simp add: handleConversation_eq obs_def)

lemma conversation_dispatch_obs:
  "obs (fst (snd (conversation_dispatch app ts l ev w))) = obs w"
  by (cases l; cases ev)
     (simp_all add: audio_data_listener_eq transcription_listener_eq screen_data_listener_eq
        ended_listener_eq end_of_utterance_listener_def error_listener_def stmt_defs)

lemma conversationEmit_obs: "obs (fst (snd (conversationEmit app ts c ev w))) = obs w"
  unfolding conversationEmit_def
  by (rule block_obs) (auto simp: conversation_dispatch_obs)

lemma delegate_dispatch_obs: "obs (fst (snd (delegate_dispatch l ev w))) = obs w"
  by (cases l; cases ev) (simp_all add: handleConversation_obs skip_obs)

lemma delegateEmit_obs: "obs (fst (snd (delegateEmit ev w))) = obs w"
  unfolding delegateEmit_def
  by (rule block_obs) (auto simp: delegate_dispatch_obs)

lemma listening_inv_obs: "obs w' = obs w \<Longrightarrow> listening_inv w \<Longrightarrow> listening_inv w'"
  by (simp add: obs_def listening_inv_def)

lemma initialize_inv: "listening_inv w \<Longrightarrow> listening_inv (fst (snd (initialize G hs w)))"
  by (simp add: initialize_def stmt_defs listening_inv_def split: sum.splits)

lemma perform_inv: "listening_inv w \<Longrightarrow> listening_inv (fst (snd (perform app ts a w)))"
  by (cases a)
     (simp_all add: initialize_inv listening_inv_obs[OF invokeAssistant_obs]
        listening_inv_obs[OF tokenInputHandler_obs] listening_inv_obs[OF handleConversation_obs]
        listening_inv_obs[OF conversationEmit_obs] listening_inv_obs[OF rendererEmit_obs]
        listening_inv_obs[OF delegateEmit_obs])

lemma run_inv: "listening_inv w \<Longrightarrow> listening_inv (fst (run app ts as w))"
proof (induction as arbitrary: w)
  case Nil
  then show ?case by simp
next
  case (Cons a as)
  obtain r w' t where p: "perform app ts a w = (r, w', t)" by (cases "perform app ts a w")
  have "listening_inv w'" using perform_inv[OF Cons.prems, of app ts a] p by simp
  then have "listening_inv (fst (run app ts as w'))" by (rule Cons.IH)
  then show ?case using p by (cases "run app ts as w'") simp
qed

lemma new_world_inv: "listening_inv (new_world app)"
  by (simp add: listening_inv_def new_world_def)

section \<open>The example configurations, evaluated\<close>

lemma initialized_world_eq:
  "initialized_world =
     \<lparr>service = (AssistantService_new app0)\<lparr>assistantApiDelegate := Some 1, handlers := quiet_handlers\<rparr>,
      rendererListeners = [InvokeListener, MicAudioDataListener, EndConversationListener],
      delegateListeners = [ReadyListener, StartedListener, DelegateErrorListener],
      conversationListeners = []\<rparr>"
  by (simp add: initialized_world_def initialize_def GoogleAssistant_ok_def stmt_defs new_world_def)

lemma started_world_eq:
  "started_world =
     \<lparr>service = (AssistantService_new app0)
        \<lparr>assistantApiDelegate := Some 1, conversation := Some 7, handlers := quiet_handlers\<rparr>,
      rendererListeners = [InvokeListener, MicAudioDataListener, EndConversationListener],
      delegateListeners = [ReadyListener, StartedListener, DelegateErrorListener],
      conversationListeners = map (\<lambda>l. (7, l)) handleConversation_listeners\<rparr>"
  by (simp add: started_world_def initialize_def GoogleAssistant_ok_def delegateEmit_def
      handleConversation_eq stmt_defs new_world_def)

lemma started_world_step:
  "started_world = fst (snd (delegateEmit (StartedEvent 7) initialized_world))"
  by (simp add: started_world_def initialized_world_def split: prod.splits)

lemma failing_world_eq:
  "failing_world =
     \<lparr>service = (AssistantService_new app0)
        \<lparr>assistantApiDelegate := Some 1, conversation := Some 7, handlers := failing_handlers\<rparr>,
      rendererListeners = [InvokeListener, MicAudioDataListener, EndConversationListener],
      delegateListeners = [ReadyListener, StartedListener, DelegateErrorListener],
      conversationListeners = map (\<lambda>l. (7, l)) handleConversation_listeners\<rparr>"
  by (simp add: failing_world_def initialize_def GoogleAssistant_ok_def delegateEmit_def
      handleConversation_eq stmt_defs new_world_def)

lemma started_world_listeners: "listeners_on 7 started_world = handleConversation_listeners"
  by (simp add: started_world_eq listeners_on_def handleConversation_listeners_def)

lemma failing_world_listeners: "listeners_on 7 failing_world = handleConversation_listeners"
  by (simp add: failing_world_eq listeners_on_def handleConversation_listeners_def)

lemma uninitialized_world_eq: "uninitialized_world = new_world app0"
  by (simp add: uninitialized_world_def initialize_def GoogleAssistant_fails_def stmt_defs)

section \<open>The claims\<close>

subsection \<open>C1: the conversation reference after the end of a turn\<close>

text \<open>
  C1 says that the reference to the active conversation is cleared at once by an
  \<open>ended\<close> event of the adapter as it is by the host's end-conversation command.
  The listener for \<open>ended\<close> (lines 136--147) never assigns \<open>this.conversation\<close>:
  after initialize, \<open>started\<close> with conversation 7 and \<open>ended\<close>, the service still
  holds conversation 7, and audio from the microphone is still written to it.
\<close>

theorem ended_event_retains_conversation:
  "conversation (service (fst (run app0 latin1
       [Initialize GoogleAssistant_ok quiet_handlers,
        Started 7,
        ConversationEvent 7 (Ended None False)] (new_world app0)))) = Some 7 \<and>
   snd (run app0 latin1
       [Initialize GoogleAssistant_ok quiet_handlers,
        Started 7,
        ConversationEvent 7 (Ended None False),
        RendererCommand (Assistant_micAudioData [1, 2])] (new_world app0)) ! 3 =
     (None, [ConversationWrite 7 [1, 2]])"
  by (simp add: initialize_def GoogleAssistant_ok_def delegateEmit_def handleConversation_eq
      conversationEmit_def listeners_on_def handleConversation_listeners_def ended_listener_eq
      rendererEmit_def micAudioData_listener_def Buffer_from_def stmt_defs new_world_def
      quiet_handlers_def)

subsection \<open>C2: the \<open>ended\<close> event\<close>

text \<open>
  C2, as amended: the adapter's \<open>started\<close> event, on an initialized service and
  with a new conversation object, makes \<open>handleConversation\<close> register its
  listeners on that object. From then on, for every \<open>ended\<close> event of that
  conversation the service logs the error if one is present, then publishes the
  conversation-ended notification, then calls \<open>handlers.onConversationEnded()\<close>
  once; if that call returns, it publishes the start-microphone notification
  exactly when \<open>shouldContinue\<close> is true and \<open>enableMicOnImmediateResponse\<close> is set.
  If the handler throws, its exception leaves the dispatch and nothing more is
  published. The state is unchanged. An \<open>ended\<close> event of an object on which
  nothing is registered reaches no code of the service.
\<close>

theorem ended_relay_effects:
  "(delegateListeners w0 = [ReadyListener, StartedListener, DelegateErrorListener] \<and>
    listeners_on c w0 = [] \<longrightarrow>
      listeners_on c (fst (snd (delegateEmit (StartedEvent c) w0))) =
        handleConversation_listeners) \<and>
   (listeners_on c w = handleConversation_listeners \<longrightarrow>
      conversationEmit app toString c (Ended error shouldContinue) w =
        (onConversationEnded (handlers (service w)) (),
         w,
         (case error of None \<Rightarrow> [] | Some e \<Rightarrow> [ConsoleError [LogExn e]]) @
         [SendIpcMessageToRenderer Assistant_conversationEnded,
          HandlerCall OnConversationEnded] @
         (if onConversationEnded (handlers (service w)) () = None \<and> shouldContinue \<and>
             enableMicOnImmediateResponse app
          then [SendIpcMessageToRenderer Assistant_startMic] else []))) \<and>
   (listeners_on c w = [] \<longrightarrow>
      conversationEmit app toString c (Ended error shouldContinue) w = (None, w, []))"
  by (simp add: started_registers conversationEmit_ended ended_listener_eq
      conversationEmit_unregistered)

theorem ended_relay_effects_witness:
  "delegateListeners initialized_world = [ReadyListener, StartedListener, DelegateErrorListener] \<and>
   listeners_on 7 initialized_world = [] \<and>
   listeners_on 7 started_world = handleConversation_listeners \<and>
   conversationEmit app0 latin1 7 (Ended (Some (Error ''stream closed'')) True) started_world =
     (None, started_world,
      [ConsoleError [LogExn (Error ''stream closed'')],
       SendIpcMessageToRenderer Assistant_conversationEnded,
       HandlerCall OnConversationEnded,
       SendIpcMessageToRenderer Assistant_startMic]) \<and>
   conversationEmit (app0\<lparr>enableMicOnImmediateResponse := False\<rparr>) latin1 7 (Ended None True)
       started_world =
     (None, started_world,
      [SendIpcMessageToRenderer Assistant_conversationEnded,
       HandlerCall OnConversationEnded]) \<and>
   conversationEmit app0 latin1 7 (Ended None True) initialized_world =
     (None, initialized_world, [])"
proof -
  have a: "delegateListeners initialized_world =
      [ReadyListener, StartedListener, DelegateErrorListener]"
    by (simp add: initialized_world_eq)
  have b: "listeners_on 7 initialized_world = []"
    by (simp add: initialized_world_eq listeners_on_def)
  have h: "onConversationEnded (handlers (service started_world)) () = None"
    by (simp add: started_world_eq quiet_handlers_def)
  have e: "enableMicOnImmediateResponse app0"
    by (simp add: app0_def)
  show ?thesis
    using a b h e
      ended_relay_effects [of initialized_world 7 started_world app0 latin1
        "Some (Error ''stream closed'')" True]
      ended_relay_effects [of initialized_world 7 started_world
        "app0\<lparr>enableMicOnImmediateResponse := False\<rparr>" latin1 None True]
      ended_relay_effects [of initialized_world 7 initialized_world app0 latin1 None True]
    unfolding started_world_step [symmetric]
    by simp
qed

text \<open>The claim as stated fails where the handler throws: \<open>shouldContinue\<close> is true and
  auto-continuation is enabled, and no start-microphone notification is published.\<close>

theorem ended_relay_startMic_counterexample:
  "enableMicOnImmediateResponse app0 \<and>
   run app0 latin1
     [Initialize GoogleAssistant_ok failing_handlers, Started 7,
      ConversationEvent 7 (Ended None True)] (new_world app0) =
     (failing_world,
      [(None, [ConsoleLog [LogStr ''Assistant Service initialized successfully'']]),
       (None, []),
       (Some (Error ''handler failed''),
        [SendIpcMessageToRenderer Assistant_conversationEnded,
         HandlerCall OnConversationEnded])])"
  by (simp add: failing_world_eq app0_def initialize_succeeded GoogleAssistant_ok_def
      delegateEmit_def handleConversation_eq skip_def new_world_def conversationEmit_def
      listeners_on_def handleConversation_listeners_def ended_listener_eq failing_handlers_def)

subsection \<open>C3: the \<open>transcription\<close> event\<close>

text \<open>
  C3: the adapter's \<open>started\<close> event, on an initialized service and with a new
  conversation object, makes \<open>handleConversation\<close> register its listeners on that
  object. From then on, for every transcription event of that conversation the
  transcription object is published to the renderer; \<open>handlers.onQuery\<close> is called
  exactly when \<open>done\<close> is true, and then once, after the publication, with the
  transcribed text. The state is unchanged. A transcription event of an object
  on which nothing is registered reaches no code of the service.
\<close>

theorem transcription_relay:
  "(delegateListeners w0 = [ReadyListener, StartedListener, DelegateErrorListener] \<and>
    listeners_on c w0 = [] \<longrightarrow>
      listeners_on c (fst (snd (delegateEmit (StartedEvent c) w0))) =
        handleConversation_listeners) \<and>
   (listeners_on c w = handleConversation_listeners \<longrightarrow>
      conversationEmit app toString c (Transcription t) w =
        (if done_flag t then onQuery (handlers (service w)) (transcription t) else None,
         w,
         SendIpcMessageToRenderer (Assistant_transcription t) #
           (if done_flag t then [HandlerCall (OnQuery (transcription t))] else []))) \<and>
   (listeners_on c w = [] \<longrightarrow>
      conversationEmit app toString c (Transcription t) w = (None, w, []))"
  by (simp add: started_registers conversationEmit_transcription transcription_listener_eq
      conversationEmit_unregistered)

theorem transcription_relay_witness:
  "delegateListeners initialized_world = [ReadyListener, StartedListener, DelegateErrorListener] \<and>
   listeners_on 7 initialized_world = [] \<and>
   listeners_on 7 started_world = handleConversation_listeners \<and>
   conversationEmit app0 latin1 7
       (Transcription \<lparr>transcription = ''turn on'', done_flag = False\<rparr>) started_world =
     (None, started_world,
      [SendIpcMessageToRenderer
         (Assistant_transcription \<lparr>transcription = ''turn on'', done_flag = False\<rparr>)]) \<and>
   conversationEmit app0 latin1 7
       (Transcription \<lparr>transcription = ''turn on lights'', done_flag = True\<rparr>) started_world =
     (None, started_world,
      [SendIpcMessageToRenderer
         (Assistant_transcription \<lparr>transcription = ''turn on lights'', done_flag = True\<rparr>),
       HandlerCall (OnQuery ''turn on lights'')]) \<and>
   conversationEmit app0 latin1 7
       (Transcription \<lparr>transcription = ''turn on lights'', done_flag = True\<rparr>)
       initialized_world =
     (None, initialized_world, [])"
proof -
  have a: "delegateListeners initialized_world =
      [ReadyListener, StartedListener, DelegateErrorListener]"
    by (simp add: initialized_world_eq)
  have b: "listeners_on 7 initialized_world = []"
    by (simp add: initialized_world_eq listeners_on_def)
  have h: "onQuery (handlers (service started_world)) x = None" for x
    by (simp add: started_world_eq quiet_handlers_def)
  show ?thesis
    using a b h
      transcription_relay [of initialized_world 7 started_world app0 latin1
        "\<lparr>transcription = ''turn on'', done_flag = False\<rparr>"]
      transcription_relay [of initialized_world 7 started_world app0 latin1
        "\<lparr>transcription = ''turn on lights'', done_flag = True\<rparr>"]
      transcription_relay [of initialized_world 7 initialized_world app0 latin1
        "\<lparr>transcription = ''turn on lights'', done_flag = True\<rparr>"]
    unfolding started_world_step [symmetric]
    by simp
qed

subsection \<open>C4: the text query of \<open>invokeAssistant\<close>\<close>

text \<open>
  C4: with an adapter, \<open>invokeAssistant\<close> with a non-empty string sets
  \<open>config.conversation.textQuery\<close> to it and issues the start command with that
  configuration; with no argument or the empty string it resets \<open>textQuery\<close> to
  unset before the start command. Of two calls in a row, the second start command
  carries the text query of the second call only.
\<close>

theorem invokeAssistant_textQuery:
  assumes "assistantApiDelegate (service w) = Some d"
  shows
    "(t \<noteq> [] \<longrightarrow>
        invokeAssistant (Some t) w =
          (None, w\<lparr>service := set_textQuery (Some t) (service w)\<rparr>,
           [DelegateStart d ((conversation_cfg (config (service w)))\<lparr>textQuery := Some t\<rparr>)])) \<and>
     (q = None \<or> q = Some [] \<longrightarrow>
        invokeAssistant q w =
          (None, w\<lparr>service := set_textQuery None (service w)\<rparr>,
           [DelegateStart d ((conversation_cfg (config (service w)))\<lparr>textQuery := None\<rparr>)])) \<and>
     snd (run app toString [InvokeAssistant q1, InvokeAssistant q2] w) =
       [(None, [DelegateStart d ((conversation_cfg (config (service w)))
                   \<lparr>textQuery := (if truthy q1 then q1 else None)\<rparr>)]),
        (None, [DelegateStart d ((conversation_cfg (config (service w)))
                   \<lparr>textQuery := (if truthy q2 then q2 else None)\<rparr>)])]"
proof -
  have two: "snd (run app toString [InvokeAssistant q1, InvokeAssistant q2] w) =
       [(None, [DelegateStart d ((conversation_cfg (config (service w)))
                   \<lparr>textQuery := (if truthy q1 then q1 else None)\<rparr>)]),
        (None, [DelegateStart d ((conversation_cfg (config (service w)))
                   \<lparr>textQuery := (if truthy q2 then q2 else None)\<rparr>)])]"
    using assms by (simp add: invokeAssistant_def stmt_defs set_textQuery_def)
  show ?thesis
    using two by (auto simp: invokeAssistant_started[OF assms])
qed

theorem invokeAssistant_textQuery_witness:
  "assistantApiDelegate (service initialized_world) = Some 1 \<and>
   textQuery (conversation_cfg (config (service initialized_world))) = None \<and>
   snd (run app0 latin1 [InvokeAssistant (Some ''weather today''), InvokeAssistant None]
          initialized_world) =
     [(None, [DelegateStart 1 ((conversation_cfg (config (service initialized_world)))
                 \<lparr>textQuery := Some ''weather today''\<rparr>)]),
      (None, [DelegateStart 1 ((conversation_cfg (config (service initialized_world)))
                 \<lparr>textQuery := None\<rparr>)])]"
proof -
  have h: "assistantApiDelegate (service initialized_world) = Some 1"
    by (simp add: initialized_world_eq)
  have n: "textQuery (conversation_cfg (config (service initialized_world))) = None"
    by (simp add: initialized_world_eq AssistantService_new_def)
  show ?thesis
    using h n invokeAssistant_textQuery [OF h, of "''weather today''" None app0 latin1
        "Some ''weather today''" None]
    by (simp del: run.simps)
qed

subsection \<open>C5: \<open>invokeAssistant\<close> without an adapter\<close>

text \<open>
  C5: a new service has no adapter, and an \<open>initialize\<close> whose adapter construction
  throws logs the failure and leaves the state as it was. Without an adapter
  \<open>invokeAssistant\<close> throws the error "Cannot trigger "start" event for assistant
  as the initialization failed" to its caller, issues no start command (it has no
  effect at all) and leaves configuration and session state unchanged.
\<close>

theorem invokeAssistant_uninitialized:
  "assistantApiDelegate (service (new_world app)) = None \<and>
   (GoogleAssistant (auth (config (service w))) = Inl e \<longrightarrow>
      initialize GoogleAssistant hs w =
        (None, w, [ConsoleError [LogStr ''Assistant initialization failed.'', LogExn e]])) \<and>
   (assistantApiDelegate (service w) = None \<longrightarrow>
      invokeAssistant q w = (Some uninitialized, w, []))"
  by (simp add: initialize_failed invokeAssistant_throws new_world_def AssistantService_new_def)

theorem invokeAssistant_uninitialized_witness:
  "GoogleAssistant_fails (auth (config (service (new_world app0)))) =
     Inl (Error ''key file not found'') \<and>
   initialize GoogleAssistant_fails quiet_handlers (new_world app0) =
     (None, new_world app0,
      [ConsoleError [LogStr ''Assistant initialization failed.'',
                     LogExn (Error ''key file not found'')]]) \<and>
   assistantApiDelegate (service (new_world app0)) = None \<and>
   invokeAssistant (Some ''weather today'') (new_world app0) =
     (Some uninitialized, new_world app0, [])"
  using invokeAssistant_uninitialized [of app0 GoogleAssistant_fails "new_world app0"
      "Error ''key file not found''" quiet_handlers "Some ''weather today''"]
  by (simp add: GoogleAssistant_fails_def)

subsection \<open>C6: a handler that throws\<close>

text \<open>
  C6, as amended: no listener of the relay catches what a handler throws. If the
  handler called for an audio-data, transcription, screen-data or ended event
  throws, the exception leaves the listener towards the adapter that emitted the
  event; what the listener published before the call stays published, what it
  would have published after the call (the start-microphone notification) is
  not. The state of the service is unaffected.
\<close>

theorem handler_exception_propagates:
  "(onAudioData (handlers (service w)) d = Some e \<longrightarrow>
      audio_data_listener d w = (Some e, w, [HandlerCall (OnAudioData d)])) \<and>
   (done_flag t \<and> onQuery (handlers (service w)) (transcription t) = Some e \<longrightarrow>
      transcription_listener t w =
        (Some e, w,
         [SendIpcMessageToRenderer (Assistant_transcription t),
          HandlerCall (OnQuery (transcription t))])) \<and>
   (onScreenData (handlers (service w)) (toString (data sd)) = Some e \<longrightarrow>
      screen_data_listener toString sd w =
        (Some e, w,
         [SendIpcMessageToRenderer
            (Assistant_screenData \<lparr>format = format sd, data = toString (data sd)\<rparr>),
          HandlerCall (OnScreenData (toString (data sd)))])) \<and>
   (onConversationEnded (handlers (service w)) () = Some e \<longrightarrow>
      ended_listener app error shouldContinue w =
        (Some e, w,
         (case error of None \<Rightarrow> [] | Some x \<Rightarrow> [ConsoleError [LogExn x]]) @
         [SendIpcMessageToRenderer Assistant_conversationEnded,
          HandlerCall OnConversationEnded]))"
  by (simp add: audio_data_listener_eq transcription_listener_eq screen_data_listener_eq
      ended_listener_eq)

theorem handler_exception_propagates_witness:
  "onAudioData (handlers (service failing_world)) [1, 2, 3] = Some (Error ''handler failed'') \<and>
   audio_data_listener [1, 2, 3] failing_world =
     (Some (Error ''handler failed''), failing_world, [HandlerCall (OnAudioData [1, 2, 3])]) \<and>
   transcription_listener \<lparr>transcription = ''lights'', done_flag = True\<rparr> failing_world =
     (Some (Error ''handler failed''), failing_world,
      [SendIpcMessageToRenderer
         (Assistant_transcription \<lparr>transcription = ''lights'', done_flag = True\<rparr>),
       HandlerCall (OnQuery ''lights'')]) \<and>
   screen_data_listener latin1 \<lparr>format = ''HTML'', data = [60, 112, 62]\<rparr> failing_world =
     (Some (Error ''handler failed''), failing_world,
      [SendIpcMessageToRenderer
         (Assistant_screenData \<lparr>format = ''HTML'', data = latin1 [60, 112, 62]\<rparr>),
       HandlerCall (OnScreenData (latin1 [60, 112, 62]))]) \<and>
   ended_listener app0 None True failing_world =
     (Some (Error ''handler failed''), failing_world,
      [SendIpcMessageToRenderer Assistant_conversationEnded,
       HandlerCall OnConversationEnded])"
  using handler_exception_propagates [of failing_world "[1, 2, 3]" "Error ''handler failed''"
      "\<lparr>transcription = ''lights'', done_flag = True\<rparr>" latin1
      "\<lparr>format = ''HTML'', data = [60, 112, 62]\<rparr>" app0 None True]
  by (simp add: failing_world_eq failing_handlers_def)

text \<open>The claim as stated fails: with a throwing \<open>onAudioData\<close> the exception comes
  out of the relay for an audio-data event.\<close>

theorem handler_exception_counterexample:
  "fst (conversationEmit app0 latin1 7 (AudioData [1, 2, 3]) failing_world) =
     Some (Error ''handler failed'')"
proof -
  have "conversationEmit app0 latin1 7 (AudioData [1, 2, 3]) failing_world =
      audio_data_listener [1, 2, 3] failing_world"
    by (rule conversationEmit_audio_data [OF failing_world_listeners])
  then show ?thesis
    by (simp add: audio_data_listener_eq failing_world_eq failing_handlers_def)
qed

subsection \<open>C7: the relay of the OAuth code\<close>

text \<open>
  C7, as amended: for each OAuth prompt \<open>tokenInputHandler\<close> publishes one
  show-OAuth-prompt notification carrying the authorization URL and subscribes
  one listener to the inbound oauth-code command. The subscription lasts: every
  oauth-code command invokes, once and with its code, the validation callback of
  every prompt issued so far, so the callback of one prompt is invoked once per
  submitted code and not once per prompt.
\<close>

theorem tokenInput_relay:
  "tokenInputHandler cb authUrl w =
     (None, w\<lparr>rendererListeners := rendererListeners w @ [OauthCodeListener cb]\<rparr>,
      [SendIpcMessageToRenderer (Assistant_showOauthTokenPrompt authUrl)]) \<and>
   subscribed_callbacks (rendererListeners w @ [OauthCodeListener cb]) =
     subscribed_callbacks (rendererListeners w) @ [cb] \<and>
   rendererEmit (Assistant_oauthCode oauthCode) w =
     (None, w,
      map (\<lambda>cb. OauthValidationCallback cb oauthCode)
        (subscribed_callbacks (rendererListeners w)))"
proof -
  have "subscribed_callbacks (ls @ [OauthCodeListener cb]) = subscribed_callbacks ls @ [cb]"
    for ls
    by (induction ls rule: subscribed_callbacks.induct) simp_all
  then show ?thesis
    by (simp add: tokenInputHandler_eq rendererEmit_def block_oauthCode)
qed

theorem tokenInput_relay_witness:
  "snd (run app0 latin1
     [TokenInput 1 ''https://accounts.example/auth'',
      RendererCommand (Assistant_oauthCode ''4/abc'')] initialized_world) =
   [(None,
     [SendIpcMessageToRenderer (Assistant_showOauthTokenPrompt ''https://accounts.example/auth'')]),
    (None, [OauthValidationCallback 1 ''4/abc''])]"
  using tokenInput_relay [of 1 "''https://accounts.example/auth''" initialized_world "''4/abc''"]
    tokenInput_relay [of 1 "''https://accounts.example/auth''"
      "initialized_world\<lparr>rendererListeners :=
         rendererListeners initialized_world @ [OauthCodeListener 1]\<rparr>" "''4/abc''"]
  by (simp add: initialized_world_eq)

text \<open>The claim as stated fails: after one prompt, two oauth-code commands invoke the
  callback of that prompt twice.\<close>

theorem tokenInput_relay_counterexample:
  "snd (run app0 latin1
     [TokenInput 1 ''https://accounts.example/auth'',
      RendererCommand (Assistant_oauthCode ''first''),
      RendererCommand (Assistant_oauthCode ''second'')] (new_world app0)) =
   [(None,
     [SendIpcMessageToRenderer (Assistant_showOauthTokenPrompt ''https://accounts.example/auth'')]),
    (None, [OauthValidationCallback 1 ''first'']),
    (None, [OauthValidationCallback 1 ''second''])]"
  by (simp add: tokenInputHandler_eq rendererEmit_def oauthCode_listener_def stmt_defs
      new_world_def)

subsection \<open>C8: the relay of audio data\<close>

text \<open>
  C8: the adapter's \<open>started\<close> event, on an initialized service and with a new
  conversation object, makes \<open>handleConversation\<close> register its listeners on that
  object. From then on, for every sequence of audio-data events of that
  conversation, \<open>handlers.onAudioData\<close> is called once per event, in the order of
  the events, with the bytes of that event; nothing is dropped, reordered, held
  back or joined, whatever the handler does. The state is unchanged. Audio-data
  events of an object on which nothing is registered reach no handler.
\<close>

theorem audio_relay_identity:
  "(delegateListeners w0 = [ReadyListener, StartedListener, DelegateErrorListener] \<and>
    listeners_on c w0 = [] \<longrightarrow>
      listeners_on c (fst (snd (delegateEmit (StartedEvent c) w0))) =
        handleConversation_listeners) \<and>
   (listeners_on c w = handleConversation_listeners \<longrightarrow>
      run app toString (map (\<lambda>d. ConversationEvent c (AudioData d)) ds) w =
        (w, map (\<lambda>d. (onAudioData (handlers (service w)) d, [HandlerCall (OnAudioData d)])) ds)) \<and>
   (listeners_on c w = [] \<longrightarrow>
      run app toString (map (\<lambda>d. ConversationEvent c (AudioData d)) ds) w =
        (w, map (\<lambda>d. (None, [])) ds))"
proof -
  have relay: "run app toString (map (\<lambda>d. ConversationEvent c (AudioData d)) ds) w =
        (w, map (\<lambda>d. (onAudioData (handlers (service w)) d, [HandlerCall (OnAudioData d)])) ds)"
    if r: "listeners_on c w = handleConversation_listeners"
    by (induction ds) (simp_all add: conversationEmit_audio_data [OF r] audio_data_listener_eq)
  have silent: "run app toString (map (\<lambda>d. ConversationEvent c (AudioData d)) ds) w =
        (w, map (\<lambda>d. (None, [])) ds)"
    if r: "listeners_on c w = []"
    by (induction ds) (simp_all add: conversationEmit_unregistered [OF r])
  show ?thesis
    using relay silent started_registers [of w0 c] by blast
qed

theorem audio_relay_identity_witness:
  "delegateListeners initialized_world = [ReadyListener, StartedListener, DelegateErrorListener] \<and>
   listeners_on 7 initialized_world = [] \<and>
   listeners_on 7 started_world = handleConversation_listeners \<and>
   run app0 latin1
     [ConversationEvent 7 (AudioData [1, 2]), ConversationEvent 7 (AudioData []),
      ConversationEvent 7 (AudioData [255])] started_world =
   (started_world,
    [(None, [HandlerCall (OnAudioData [1, 2])]),
     (None, [HandlerCall (OnAudioData [])]),
     (None, [HandlerCall (OnAudioData [255])])]) \<and>
   run app0 latin1
     [ConversationEvent 7 (AudioData [1, 2]), ConversationEvent 7 (AudioData []),
      ConversationEvent 7 (AudioData [255])] initialized_world =
   (initialized_world, [(None, []), (None, []), (None, [])])"
proof -
  have a: "delegateListeners initialized_world =
      [ReadyListener, StartedListener, DelegateErrorListener]"
    by (simp add: initialized_world_eq)
  have b: "listeners_on 7 initialized_world = []"
    by (simp add: initialized_world_eq listeners_on_def)
  have h: "onAudioData (handlers (service started_world)) x = None" for x
    by (simp add: started_world_eq quiet_handlers_def)
  show ?thesis
    using a b h
      audio_relay_identity [of initialized_world 7 started_world app0 latin1 "[[1, 2], [], [255]]"]
      audio_relay_identity [of initialized_world 7 initialized_world app0 latin1
        "[[1, 2], [], [255]]"]
    unfolding started_world_step [symmetric]
    by (simp del: run.simps)
qed

subsection \<open>C9: the end-conversation command\<close>

text \<open>
  C9: when no conversation is held, the end-conversation command of the renderer
  does nothing: no exception, no effect, the state as before. When a conversation
  is held (and the service has subscribed its listener), the command signals end
  on that conversation, once, and clears the reference.
\<close>

theorem endConversation_command:
  "(conversation (service w) = None \<longrightarrow>
      rendererEmit Assistant_endConversation w = (None, w, [])) \<and>
   (conversation (service w) = Some c \<and>
    EndConversationListener \<in> set (rendererListeners w) \<longrightarrow>
      rendererEmit Assistant_endConversation w =
        (None, w\<lparr>service := (service w)\<lparr>conversation := None\<rparr>\<rparr>, [ConversationEnd c]))"
  by (simp add: rendererEmit_def block_endConversation endConversation_listener_eq)

theorem endConversation_command_witness:
  "conversation (service initialized_world) = None \<and>
   rendererEmit Assistant_endConversation initialized_world = (None, initialized_world, []) \<and>
   conversation (service failing_world) = Some 7 \<and>
   EndConversationListener \<in> set (rendererListeners failing_world) \<and>
   rendererEmit Assistant_endConversation failing_world =
     (None, failing_world\<lparr>service := (service failing_world)\<lparr>conversation := None\<rparr>\<rparr>,
      [ConversationEnd 7])"
proof -
  have a: "conversation (service initialized_world) = None"
    by (simp add: initialized_world_eq AssistantService_new_def)
  have b: "conversation (service failing_world) = Some 7"
    by (simp add: failing_world_eq)
  have c: "EndConversationListener \<in> set (rendererListeners failing_world)"
    by (simp add: failing_world_eq)
  show ?thesis
    using a b c endConversation_command [of initialized_world 7]
      endConversation_command [of failing_world 7]
    by simp
qed

subsection \<open>C10: the invoke command without an adapter\<close>

text \<open>
  C10, as amended: the body of the invoke listener publishes the
  stop-audio-playback notification before it calls \<open>invokeAssistant\<close>, so in a state
  without an adapter it would publish, then throw, and never call
  \<open>handlers.onQuery\<close>. No history of the service reaches that: the listener is
  subscribed by \<open>initialize\<close> only after the adapter has been constructed, and the
  adapter reference is never unset afterwards. While the adapter has never been
  constructed, an invoke command finds no listener: nothing is published and
  nothing is thrown.
\<close>

theorem invoke_command_needs_adapter:
  "(assistantApiDelegate (service w) = None \<longrightarrow>
      invoke_listener q w =
        (Some uninitialized, w,
         [SendIpcMessageToRenderer Assistant_stopAudioResponsePlayback])) \<and>
   (InvokeListener \<in> set (rendererListeners (fst (run app toString history (new_world app'))))
      \<longrightarrow> assistantApiDelegate (service (fst (run app toString history (new_world app')))) \<noteq> None) \<and>
   (assistantApiDelegate (service (fst (run app toString history (new_world app')))) = None \<longrightarrow>
      rendererEmit (Assistant_invoke q) (fst (run app toString history (new_world app'))) =
        (None, fst (run app toString history (new_world app')), []))"
proof -
  let ?w = "fst (run app toString history (new_world app'))"
  have inv: "listening_inv ?w"
    by (rule run_inv) (rule new_world_inv)
  have body: "assistantApiDelegate (service w) = None \<longrightarrow>
      invoke_listener q w =
        (Some uninitialized, w,
         [SendIpcMessageToRenderer Assistant_stopAudioResponsePlayback])"
    by (simp add: invoke_listener_def invokeAssistant_throws stmt_defs)
  have sub: "InvokeListener \<in> set (rendererListeners ?w) \<longrightarrow>
      assistantApiDelegate (service ?w) \<noteq> None"
    using inv by (simp add: listening_inv_def)
  have quiet: "assistantApiDelegate (service ?w) = None \<longrightarrow>
      rendererEmit (Assistant_invoke q) ?w = (None, ?w, [])"
    using sub rendererEmit_invoke_unsubscribed[of ?w q] by blast
  show ?thesis
    using body sub quiet by blast
qed

theorem invoke_command_needs_adapter_witness:
  "assistantApiDelegate (service (new_world app0)) = None \<and>
   invoke_listener (Some ''hi'') (new_world app0) =
     (Some uninitialized, new_world app0,
      [SendIpcMessageToRenderer Assistant_stopAudioResponsePlayback]) \<and>
   InvokeListener \<in> set (rendererListeners initialized_world) \<and>
   assistantApiDelegate (service initialized_world) \<noteq> None \<and>
   assistantApiDelegate (service uninitialized_world) = None \<and>
   rendererEmit (Assistant_invoke (Some ''hi'')) uninitialized_world =
     (None, uninitialized_world, [])"
proof -
  have a: "assistantApiDelegate (service (new_world app0)) = None"
    by (simp add: new_world_def AssistantService_new_def)
  have b: "InvokeListener \<in> set (rendererListeners initialized_world)"
    by (simp add: initialized_world_eq)
  have c: "assistantApiDelegate (service uninitialized_world) = None"
    by (simp add: uninitialized_world_eq a)
  show ?thesis
    using a b c
      invoke_command_needs_adapter [of "new_world app0" "Some ''hi''" app0 latin1
        "[Initialize GoogleAssistant_ok quiet_handlers]" app0]
      invoke_command_needs_adapter [of "new_world app0" "Some ''hi''" app0 latin1
        "[Initialize GoogleAssistant_fails quiet_handlers]" app0]
    unfolding initialized_world_def[symmetric] uninitialized_world_def[symmetric]
    by blast
qed

text \<open>The claim as stated fails: after an \<open>initialize\<close> whose adapter construction
  threw, and likewise before any \<open>initialize\<close>, an invoke command publishes no
  stop-audio-playback notification and throws nothing.\<close>

theorem invoke_command_counterexample:
  "assistantApiDelegate (service uninitialized_world) = None \<and>
   rendererEmit (Assistant_invoke (Some ''hi'')) uninitialized_world =
     (None, uninitialized_world, []) \<and>
   rendererEmit (Assistant_invoke (Some ''hi'')) (new_world app0) =
     (None, new_world app0, [])"
  by (simp add: uninitialized_world_eq new_world_def AssistantService_new_def rendererEmit_def)

end
